theory Spec2Isabelle
  imports Main "HOL-Library.Word"
begin

section \<open>SCMI SMC/HVC transport (drivers/firmware/arm\_scmi/smc.c)\<close>

text \<open>
  A shallow embedding of the transport driver. Every function of the file is a HOL
  function over an explicit driver state. What the driver calls but does not define (the
  device-tree helpers, the allocator, the SMCCC primitives, the shared-memory helpers and
  the callbacks of the SCMI core) is a field of a \<open>platform\<close> record, so every
  theorem holds for all behaviours of those collaborators. Each call of a collaborator is
  appended to a trace, so that what was called, how often and with which arguments can be
  stated. A dereference of a pointer that does not point to an object ends the run: the
  result is \<open>None\<close>.
\<close>

subsection \<open>C types\<close>

text \<open>
  \<open>int\<close> and \<open>u32\<close> are 32-bit words; an \<open>int\<close> is read with \<open>sint\<close> and compared with
  the signed orders. \<open>unsigned long\<close> has the width of a register, 32 bits on arm and 64
  bits on arm64: it is \<open>'r word\<close>, for any length \<open>'r\<close>. A C string is the list of its
  characters before the terminating NUL. A pointer is a number, and a pointer that may be
  NULL is an option.
\<close>

type_synonym c_int = "32 word"
type_synonym u32 = "32 word"
type_synonym resource_size_t = "64 word"

text \<open>The errno values of include/uapi/asm-generic/errno-base.h and errno.h.\<close>

definition ENXIO :: c_int where "ENXIO = 6"
definition ENOMEM :: c_int where "ENOMEM = 12"
definition ENODEV :: c_int where "ENODEV = 19"
definition EINVAL :: c_int where "EINVAL = 22"
definition EADDRNOTAVAIL :: c_int where "EADDRNOTAVAIL = 99"

text \<open>\<open>struct scmi_smc\<close>, lines 27-32; the fields in the order of the source.\<close>

record scmi_smc =
  cinfo :: "nat option"
  shmem :: "nat option"
  func_id :: u32
  prot_id :: c_int

text \<open>
  The two fields of \<open>struct scmi_chan_info\<close> (common.h) that the driver touches: the
  device of the upper channel and the transport-private handle.
\<close>

record scmi_chan_info =
  dev :: nat
  transport_info :: "nat option"

text \<open>\<open>struct resource\<close> as far as \<open>resource_size\<close> reads it, and \<open>struct arm_smccc_res\<close>.\<close>

record resource =
  res_start :: resource_size_t
  res_end :: resource_size_t

record 'v arm_smccc_res =
  a0 :: 'v
  a1 :: 'v
  a2 :: 'v
  a3 :: 'v

definition resource_size :: "resource \<Rightarrow> resource_size_t" where
  "resource_size res = res_end res - res_start res + 1"

text \<open>
  The values the function pointer \<open>invoke_scmi_smc_fn\<close> (line 38) takes besides NULL: the
  two functions of type \<open>scmi_smc_fn\<close> that the file defines.
\<close>

datatype scmi_smc_fn = Invoke_scmi_fn_hvc | Invoke_scmi_fn_smc

subsection \<open>The collaborators and the trace of their calls\<close>

text \<open>
  One event per call of a function that smc.c does not define, with the arguments of the
  call. \<open>'v\<close> is the type of a register value.
\<close>

datatype 'v event =
    Devm_kzalloc nat
  | Of_parse_phandle "nat option" string nat
  | Of_address_to_resource "nat option" nat
  | Of_node_put "nat option"
  | Dev_err nat string
  | Devm_ioremap nat resource_size_t resource_size_t
  | Of_property_read_u32 "nat option" string
  | Of_find_node_by_path string
  | Of_property_read_string "nat option" string
  | Pr_warn string
  | Shmem_tx_prepare "nat option" nat
  | Arm_smccc_hvc "'v list"
  | Arm_smccc_smc "'v list"
  | Shmem_read_header "nat option"
  | Scmi_rx_callback "nat option" u32
  | Scmi_free_channel nat nat c_int
  | Shmem_fetch_response "nat option" nat
  | Shmem_poll_done "nat option" nat

text \<open>
  The behaviour of the collaborators. \<open>'w\<close> is the state outside the driver: the shared
  memory, the firmware behind the conduit and the SCMI core with its transfers. A helper
  with an output parameter returns the pair of its return value and the value it stores;
  the device tree is fixed, so its helpers do not depend on \<open>'w\<close>.
\<close>

record ('v, 'w) platform =
  of_node :: "nat \<Rightarrow> nat option"
  of_parse_phandle :: "nat option \<Rightarrow> string \<Rightarrow> nat \<Rightarrow> nat option"
  of_address_to_resource :: "nat option \<Rightarrow> nat \<Rightarrow> c_int \<times> resource"
  of_property_read_u32 :: "nat option \<Rightarrow> string \<Rightarrow> c_int \<times> u32"
  of_find_node_by_path :: "string \<Rightarrow> nat option"
  of_property_read_string :: "nat option \<Rightarrow> string \<Rightarrow> c_int \<times> string"
  devm_kzalloc_ok :: "nat \<Rightarrow> 'w \<Rightarrow> bool"
  devm_ioremap :: "nat \<Rightarrow> resource_size_t \<Rightarrow> resource_size_t \<Rightarrow> 'w \<Rightarrow> nat option"
  arm_smccc_hvc :: "'v list \<Rightarrow> 'w \<Rightarrow> 'v arm_smccc_res \<times> 'w"
  arm_smccc_smc :: "'v list \<Rightarrow> 'w \<Rightarrow> 'v arm_smccc_res \<times> 'w"
  shmem_tx_prepare :: "nat option \<Rightarrow> nat \<Rightarrow> 'w \<Rightarrow> 'w"
  shmem_read_header :: "nat option \<Rightarrow> 'w \<Rightarrow> u32"
  shmem_fetch_response :: "nat option \<Rightarrow> nat \<Rightarrow> 'w \<Rightarrow> 'w"
  shmem_poll_done :: "nat option \<Rightarrow> nat \<Rightarrow> 'w \<Rightarrow> bool"
  scmi_rx_callback :: "nat option \<Rightarrow> u32 \<Rightarrow> 'w \<Rightarrow> 'w"
  scmi_free_channel :: "nat \<Rightarrow> nat \<Rightarrow> c_int \<Rightarrow> 'w \<Rightarrow> 'w"

subsection \<open>The driver state\<close>

text \<open>
  \<open>invoke_scmi_smc_fn\<close> is the file's only global. \<open>smc_objs\<close> holds the
  \<open>struct scmi_smc\<close> objects that \<open>devm_kzalloc\<close> handed out, a pointer to one being its
  index; \<open>chans\<close> holds the channel descriptors of the SCMI core by address.
\<close>

record ('v, 'w) state =
  invoke_scmi_smc_fn :: "scmi_smc_fn option"
  smc_objs :: "scmi_smc list"
  chans :: "nat \<rightharpoonup> scmi_chan_info"
  world :: 'w
  trace :: "'v event list"

definition emit :: "'v event \<Rightarrow> ('v, 'w) state \<Rightarrow> ('v, 'w) state" where
  "emit e s = s\<lparr>trace := trace s @ [e]\<rparr>"

text \<open>The events a run from \<open>s\<close> to \<open>s'\<close> added.\<close>

definition new_events :: "('v, 'w) state \<Rightarrow> ('v, 'w) state \<Rightarrow> 'v event list" where
  "new_events s s' = drop (length (trace s)) (trace s')"

text \<open>
  Modelled from the spec: \<open>strcmp\<close> is not in smc.c. The spec's resolver tests whether the
  method string equals a literal; this is lib/string.c's loop on NUL-free character lists,
  which returns 0 on equal strings and -1 or 1 at the first difference.
\<close>

fun strcmp :: "string \<Rightarrow> string \<Rightarrow> c_int" where
  "strcmp [] [] = 0"
| "strcmp [] (c # ct) = - 1"
| "strcmp (c # cs) [] = 1"
| "strcmp (c # cs) (d # ct) =
     (if c \<noteq> d then (if (of_char c :: nat) < of_char d then - 1 else 1) else strcmp cs ct)"

subsection \<open>The functions of smc.c\<close>

text \<open>\<open>smc_chan_available\<close>, lines 42-45.\<close>

definition smc_chan_available :: "nat \<Rightarrow> c_int \<Rightarrow> bool" where
  "smc_chan_available dev_p idx = True"

text \<open>
  \<open>__invoke_scmi_fn_hvc\<close> and \<open>__invoke_scmi_fn_smc\<close>, lines 47-73: the eight parameters go
  to the SMCCC primitive in their order, and \<open>res.a0\<close> is returned.
\<close>

definition invoke_scmi_fn_hvc ::
  "('v, 'w) platform \<Rightarrow> 'v \<Rightarrow> 'v \<Rightarrow> 'v \<Rightarrow> 'v \<Rightarrow> 'v \<Rightarrow> 'v \<Rightarrow> 'v \<Rightarrow> 'v \<Rightarrow>
     ('v, 'w) state \<Rightarrow> 'v \<times> ('v, 'w) state" where
  "invoke_scmi_fn_hvc P function_id arg0 arg1 arg2 arg3 arg4 arg5 arg6 s =
     (let args = [function_id, arg0, arg1, arg2, arg3, arg4, arg5, arg6];
          (res, w) = arm_smccc_hvc P args (world s)
      in (a0 res, emit (Arm_smccc_hvc args) (s\<lparr>world := w\<rparr>)))"

definition invoke_scmi_fn_smc ::
  "('v, 'w) platform \<Rightarrow> 'v \<Rightarrow> 'v \<Rightarrow> 'v \<Rightarrow> 'v \<Rightarrow> 'v \<Rightarrow> 'v \<Rightarrow> 'v \<Rightarrow> 'v \<Rightarrow>
     ('v, 'w) state \<Rightarrow> 'v \<times> ('v, 'w) state" where
  "invoke_scmi_fn_smc P function_id arg0 arg1 arg2 arg3 arg4 arg5 arg6 s =
     (let args = [function_id, arg0, arg1, arg2, arg3, arg4, arg5, arg6];
          (res, w) = arm_smccc_smc P args (world s)
      in (a0 res, emit (Arm_smccc_smc args) (s\<lparr>world := w\<rparr>)))"

text \<open>A call through a non-NULL \<open>scmi_smc_fn\<close> pointer.\<close>

fun call_scmi_smc_fn ::
  "scmi_smc_fn \<Rightarrow> ('v, 'w) platform \<Rightarrow> 'v \<Rightarrow> 'v \<Rightarrow> 'v \<Rightarrow> 'v \<Rightarrow> 'v \<Rightarrow> 'v \<Rightarrow> 'v \<Rightarrow> 'v \<Rightarrow>
     ('v, 'w) state \<Rightarrow> 'v \<times> ('v, 'w) state" where
  "call_scmi_smc_fn Invoke_scmi_fn_hvc = invoke_scmi_fn_hvc"
| "call_scmi_smc_fn Invoke_scmi_fn_smc = invoke_scmi_fn_smc"

text \<open>The message of line 90, with the method string in place of \<open>%s\<close>.\<close>

definition invalid_method_msg :: "string \<Rightarrow> string" where
  "invalid_method_msg m =
     ''invalid '' @ [CHR 0x22] @ ''method'' @ [CHR 0x22] @ '' property: '' @ m @ [CHR 0x0A]"

text \<open>
  \<open>scmi_smc_conduit_method\<close>, lines 75-95. It returns 0 at once when the pointer is set;
  any failure of \<open>of_property_read_string\<close> becomes \<open>-ENXIO\<close>.
\<close>

definition scmi_smc_conduit_method ::
  "('v, 'w) platform \<Rightarrow> nat option \<Rightarrow> ('v, 'w) state \<Rightarrow> c_int \<times> ('v, 'w) state" where
  "scmi_smc_conduit_method P np s =
     (if invoke_scmi_smc_fn s \<noteq> None then (0, s)
      else
        let (rc, m) = of_property_read_string P np ''method'';
            s1 = emit (Of_property_read_string np ''method'') s
        in if rc \<noteq> 0 then (- ENXIO, s1)
           else if strcmp ''hvc'' m = 0 then
             (0, s1\<lparr>invoke_scmi_smc_fn := Some Invoke_scmi_fn_hvc\<rparr>)
           else if strcmp ''smc'' m = 0 then
             (0, s1\<lparr>invoke_scmi_smc_fn := Some Invoke_scmi_fn_smc\<rparr>)
           else (- EINVAL, emit (Pr_warn (invalid_method_msg m)) s1))"

text \<open>A store through a pointer to a \<open>struct scmi_smc\<close> that is known to be valid.\<close>

definition upd_smc ::
  "nat \<Rightarrow> (scmi_smc \<Rightarrow> scmi_smc) \<Rightarrow> ('v, 'w) state \<Rightarrow> ('v, 'w) state" where
  "upd_smc p f s = s\<lparr>smc_objs := (smc_objs s)[p := f (smc_objs s ! p)]\<rparr>"

text \<open>The object \<open>devm_kzalloc\<close> returns: all fields zero.\<close>

definition zeroed_scmi_smc :: scmi_smc where
  "zeroed_scmi_smc = \<lparr>cinfo = None, shmem = None, func_id = 0, prot_id = 0\<rparr>"

text \<open>
  \<open>smc_chan_setup\<close>, lines 97-154. \<open>cinfo->dev\<close> is read first (line 100), before the test
  of \<open>tx\<close>. The object allocated at line 111 is device-managed: the error returns after it
  leave it allocated, as the source does. On the error return of line 144 the
  \<open>of_node_put\<close> of line 146 is not reached.
\<close>

definition smc_chan_setup ::
  "('v, 'w) platform \<Rightarrow> nat \<Rightarrow> nat \<Rightarrow> c_int \<Rightarrow> bool \<Rightarrow> ('v, 'w) state \<Rightarrow>
     (c_int \<times> ('v, 'w) state) option" where
  "smc_chan_setup P cinfo_p dev_p prot tx s =
     (case chans s cinfo_p of
        None \<Rightarrow> None
      | Some ci \<Rightarrow>
          let cdev = dev ci in
          if \<not> tx then Some (- ENODEV, s)
          else
            let s1 = emit (Devm_kzalloc dev_p) s in
            if \<not> devm_kzalloc_ok P dev_p (world s1) then Some (- ENOMEM, s1)
            else
              let scmi_info = length (smc_objs s1);
                  s2 = s1\<lparr>smc_objs := smc_objs s1 @ [zeroed_scmi_smc]\<rparr>;
                  np1 = of_parse_phandle P (of_node P cdev) ''shmem'' 0;
                  s3 = emit (Of_parse_phandle (of_node P cdev) ''shmem'' 0) s2;
                  np = (if np1 = None then of_parse_phandle P (of_node P dev_p) ''shmem'' 0
                        else np1);
                  s4 = (if np1 = None
                        then emit (Of_parse_phandle (of_node P dev_p) ''shmem'' 0) s3 else s3);
                  (ret, res) = of_address_to_resource P np 0;
                  s5 = emit (Of_node_put np) (emit (Of_address_to_resource np 0) s4)
              in
              if ret \<noteq> 0 then
                Some (ret,
                  emit (Dev_err cdev (''failed to get SCMI Tx shared memory'' @ [CHR 0x0A])) s5)
              else
                let size = resource_size res;
                    m = devm_ioremap P dev_p (res_start res) size (world s5);
                    s6 = upd_smc scmi_info (\<lambda>obj. obj\<lparr>shmem := m\<rparr>)
                           (emit (Devm_ioremap dev_p (res_start res) size) s5)
                in
                if m = None then
                  Some (- EADDRNOTAVAIL,
                    emit (Dev_err dev_p
                      (''failed to ioremap SCMI Tx shared memory'' @ [CHR 0x0A])) s6)
                else
                  let (ret, fid) = of_property_read_u32 P (of_node P dev_p) ''smc-id'';
                      s7 = emit (Of_property_read_u32 (of_node P dev_p) ''smc-id'') s6
                  in
                  if ret <s 0 then Some (ret, s7)
                  else
                    let psci = of_find_node_by_path P ''/psci'';
                        s8 = emit (Of_find_node_by_path ''/psci'') s7
                    in
                    if psci = None then
                      Some (- ENODEV,
                        emit (Dev_err dev_p (''Not able to find /psci node'' @ [CHR 0x0A])) s8)
                    else
                      let (ret, s9) = scmi_smc_conduit_method P psci s8 in
                      if ret \<noteq> 0 then Some (ret, s9)
                      else
                        let s10 = emit (Of_node_put psci) s9;
                            s11 = upd_smc scmi_info
                                    (\<lambda>obj. obj\<lparr>func_id := fid, cinfo := Some cinfo_p,
                                             prot_id := prot\<rparr>) s10;
                            s12 = s11\<lparr>chans := (chans s11)
                                    (cinfo_p \<mapsto> ci\<lparr>transport_info := Some scmi_info\<rparr>)\<rparr>
                        in Some (0, s12))"

text \<open>
  \<open>smc_chan_free\<close>, lines 156-167. \<open>p\<close> is the channel descriptor; the store through
  \<open>scmi_info\<close> (line 162) needs the transport handle to point to an object.
\<close>

definition smc_chan_free ::
  "('v, 'w) platform \<Rightarrow> c_int \<Rightarrow> nat \<Rightarrow> nat \<Rightarrow> ('v, 'w) state \<Rightarrow>
     (c_int \<times> ('v, 'w) state) option" where
  "smc_chan_free P chan_id p data s =
     (case chans s p of
        None \<Rightarrow> None
      | Some ci \<Rightarrow>
          let scmi_info = transport_info ci;
              s1 = s\<lparr>chans := (chans s)(p \<mapsto> ci\<lparr>transport_info := None\<rparr>)\<rparr>
          in
          (case scmi_info of
             None \<Rightarrow> None
           | Some q \<Rightarrow>
               if length (smc_objs s1) \<le> q then None
               else
                 let s2 = upd_smc q (\<lambda>obj. obj\<lparr>cinfo := None\<rparr>) s1;
                     s3 = emit (Scmi_free_channel p data chan_id)
                            (s2\<lparr>world := scmi_free_channel P p data chan_id (world s2)\<rparr>)
                 in Some (0, s3)))"

text \<open>
  The load \<open>cinfo->transport_info\<close> followed by a dereference of the result, as
  \<open>smc_send_message\<close>, \<open>smc_fetch_response\<close> and \<open>smc_poll_done\<close> start.
\<close>

definition scmi_info_of :: "('v, 'w) state \<Rightarrow> nat \<Rightarrow> (nat \<times> scmi_smc) option" where
  "scmi_info_of s cinfo_p =
     (case chans s cinfo_p of
        None \<Rightarrow> None
      | Some ci \<Rightarrow>
          (case transport_info ci of
             None \<Rightarrow> None
           | Some q \<Rightarrow> if length (smc_objs s) \<le> q then None else Some (q, smc_objs s ! q)))"

text \<open>
  \<open>smc_send_message\<close>, lines 169-185. The conduit returns an \<open>unsigned long\<close>, which the
  assignment to \<open>int ret\<close> cuts to its low 32 bits; \<open>func_id\<close> (a \<open>u32\<close>) is zero-extended
  and \<open>prot_id\<close> (an \<open>int\<close>) sign-extended to the width of a register. A call through the
  pointer while it is NULL ends the run.
\<close>

definition smc_send_message ::
  "('r::len word, 'w) platform \<Rightarrow> nat \<Rightarrow> nat \<Rightarrow> ('r word, 'w) state \<Rightarrow>
     (c_int \<times> ('r word, 'w) state) option" where
  "smc_send_message P cinfo_p xfer s =
     (case scmi_info_of s cinfo_p of
        None \<Rightarrow> None
      | Some (q, scmi_info) \<Rightarrow>
          let s1 = emit (Shmem_tx_prepare (shmem scmi_info) xfer)
                     (s\<lparr>world := shmem_tx_prepare P (shmem scmi_info) xfer (world s)\<rparr>)
          in
          (case invoke_scmi_smc_fn s1 of
             None \<Rightarrow> None
           | Some f \<Rightarrow>
               let (r, s2) = call_scmi_smc_fn f P (ucast (func_id scmi_info))
                               (scast (prot_id scmi_info)) 0 0 0 0 0 0 s1;
                   ret = (ucast r :: c_int);
                   ret = (if 0 <s ret then 0 else ret);
                   hdr = shmem_read_header P (shmem scmi_info) (world s2);
                   s3 = emit (Shmem_read_header (shmem scmi_info)) s2;
                   s4 = emit (Scmi_rx_callback (cinfo scmi_info) hdr)
                          (s3\<lparr>world := scmi_rx_callback P (cinfo scmi_info) hdr (world s3)\<rparr>)
               in Some (ret, s4)))"

text \<open>\<open>smc_mark_txdone\<close>, lines 187-189: an empty body.\<close>

definition smc_mark_txdone :: "nat \<Rightarrow> c_int \<Rightarrow> ('v, 'w) state \<Rightarrow> ('v, 'w) state" where
  "smc_mark_txdone cinfo_p ret s = s"

text \<open>\<open>smc_fetch_response\<close>, lines 191-197.\<close>

definition smc_fetch_response ::
  "('v, 'w) platform \<Rightarrow> nat \<Rightarrow> nat \<Rightarrow> ('v, 'w) state \<Rightarrow> ('v, 'w) state option" where
  "smc_fetch_response P cinfo_p xfer s =
     (case scmi_info_of s cinfo_p of
        None \<Rightarrow> None
      | Some (q, scmi_info) \<Rightarrow>
          Some (emit (Shmem_fetch_response (shmem scmi_info) xfer)
                  (s\<lparr>world := shmem_fetch_response P (shmem scmi_info) xfer (world s)\<rparr>)))"

text \<open>\<open>smc_poll_done\<close>, lines 199-205.\<close>

definition smc_poll_done ::
  "('v, 'w) platform \<Rightarrow> nat \<Rightarrow> nat \<Rightarrow> ('v, 'w) state \<Rightarrow> (bool \<times> ('v, 'w) state) option" where
  "smc_poll_done P cinfo_p xfer s =
     (case scmi_info_of s cinfo_p of
        None \<Rightarrow> None
      | Some (q, scmi_info) \<Rightarrow>
          Some (shmem_poll_done P (shmem scmi_info) xfer (world s),
                emit (Shmem_poll_done (shmem scmi_info) xfer) s))"

subsection \<open>Vocabulary of the statements\<close>

text \<open>
  The SMCCC primitive behind each value of the function pointer, and the event of its call.
\<close>

definition smccc_primitive ::
  "scmi_smc_fn \<Rightarrow> ('v, 'w) platform \<Rightarrow> 'v list \<Rightarrow> 'w \<Rightarrow> 'v arm_smccc_res \<times> 'w" where
  "smccc_primitive f P = (case f of Invoke_scmi_fn_hvc \<Rightarrow> arm_smccc_hvc P
                                  | Invoke_scmi_fn_smc \<Rightarrow> arm_smccc_smc P)"

definition conduit_event :: "scmi_smc_fn \<Rightarrow> 'v list \<Rightarrow> 'v event" where
  "conduit_event f args = (case f of Invoke_scmi_fn_hvc \<Rightarrow> Arm_smccc_hvc args
                                   | Invoke_scmi_fn_smc \<Rightarrow> Arm_smccc_smc args)"

text \<open>Recognisers of events, to count the calls of one collaborator in a trace.\<close>

fun is_rx_callback :: "'v event \<Rightarrow> bool" where
  "is_rx_callback (Scmi_rx_callback c h) = True"
| "is_rx_callback e = False"

fun is_conduit_call :: "'v event \<Rightarrow> bool" where
  "is_conduit_call (Arm_smccc_hvc args) = True"
| "is_conduit_call (Arm_smccc_smc args) = True"
| "is_conduit_call e = False"

fun is_read_u32 :: "'v event \<Rightarrow> bool" where
  "is_read_u32 (Of_property_read_u32 np name) = True"
| "is_read_u32 e = False"

subsection \<open>A concrete platform\<close>

text \<open>
  The configuration of the spec's end-to-end scenarios, for evaluating the model. The
  upper channel's device is 10 with node 1, the transport device is 20 with node 2; node 1
  carries the \<open>shmem\<close> reference (to node 3, a 4 KiB region) and a decoy \<open>smc-id\<close>, node 2
  carries \<open>smc-id = 0xC20000FE\<close>, and node 4 is \<open>/psci\<close>, whose \<open>method\<close> is the
  parameter \<open>meth\<close> (absent for \<open>None\<close>). The world is the header word of the shared
  memory: the transfer writes \<open>0x00010014\<close>, the firmware adds one and returns \<open>status\<close> in
  the first result register.
\<close>

definition scenario_platform :: "64 word \<Rightarrow> string option \<Rightarrow> (64 word, u32) platform" where
  "scenario_platform status meth =
     \<lparr>of_node = (\<lambda>d. if d = 10 then Some 1 else if d = 20 then Some 2 else None),
      of_parse_phandle = (\<lambda>np name i.
         if np = Some 1 \<and> name = ''shmem'' \<and> i = 0 then Some 3 else None),
      of_address_to_resource = (\<lambda>np i.
         if np = Some 3 \<and> i = 0 then (0, \<lparr>res_start = 0x4000000, res_end = 0x4000FFF\<rparr>)
         else (- EINVAL, \<lparr>res_start = 0, res_end = 0\<rparr>)),
      of_property_read_u32 = (\<lambda>np name.
         if np = Some 2 \<and> name = ''smc-id'' then (0, 0xC20000FE)
         else if np = Some 1 \<and> name = ''smc-id'' then (0, 0xDEAD)
         else (- EINVAL, 0)),
      of_find_node_by_path = (\<lambda>path. if path = ''/psci'' then Some 4 else None),
      of_property_read_string = (\<lambda>np name.
         if np = Some 4 \<and> name = ''method'' then
           (case meth of None \<Rightarrow> (- EINVAL, []) | Some m \<Rightarrow> (0, m))
         else (- EINVAL, [])),
      devm_kzalloc_ok = (\<lambda>d w. True),
      devm_ioremap = (\<lambda>d start size w. Some 4096),
      arm_smccc_hvc = (\<lambda>args w. (\<lparr>a0 = status, a1 = 1, a2 = 2, a3 = 3\<rparr>, w + 1)),
      arm_smccc_smc = (\<lambda>args w. (\<lparr>a0 = status, a1 = 1, a2 = 2, a3 = 3\<rparr>, w + 1)),
      shmem_tx_prepare = (\<lambda>shm xfer w. 0x00010014),
      shmem_read_header = (\<lambda>shm w. w),
      shmem_fetch_response = (\<lambda>shm xfer w. w),
      shmem_poll_done = (\<lambda>shm xfer w. True),
      scmi_rx_callback = (\<lambda>c hdr w. w),
      scmi_free_channel = (\<lambda>c data chan_id w. w)\<rparr>"

text \<open>
  The state before any setup, with one channel descriptor at address 7, and the state of
  scenario A after its setup with protocol 0x14.
\<close>

definition scenario_initial :: "(64 word, u32) state" where
  "scenario_initial =
     \<lparr>invoke_scmi_smc_fn = None, smc_objs = [],
      chans = [7 \<mapsto> \<lparr>dev = 10, transport_info = None\<rparr>], world = 0, trace = []\<rparr>"

definition scenario_ready :: "(64 word, u32) state" where
  "scenario_ready =
     \<lparr>invoke_scmi_smc_fn = Some Invoke_scmi_fn_smc,
      smc_objs = [\<lparr>cinfo = Some 7, shmem = Some 4096, func_id = 0xC20000FE, prot_id = 0x14\<rparr>],
      chans = [7 \<mapsto> \<lparr>dev = 10, transport_info = Some 0\<rparr>], world = 0, trace = []\<rparr>"

subsection \<open>Sequences of message operations\<close>

text \<open>
  The four operations of \<open>scmi_smc_ops\<close> (lines 207-215) that run between setup and
  teardown, with their arguments, and the run of a list of them; a run ends with \<open>None\<close>
  where one of them dereferences an invalid pointer.
\<close>

datatype vtable_op =
    Send_message nat nat
  | Mark_txdone nat c_int
  | Fetch_response nat nat
  | Poll_done nat nat

fun op_chan :: "vtable_op \<Rightarrow> nat" where
  "op_chan (Send_message c x) = c"
| "op_chan (Mark_txdone c r) = c"
| "op_chan (Fetch_response c x) = c"
| "op_chan (Poll_done c x) = c"

fun apply_op ::
  "('r::len word, 'w) platform \<Rightarrow> vtable_op \<Rightarrow> ('r word, 'w) state \<Rightarrow>
     ('r word, 'w) state option" where
  "apply_op P (Send_message c x) s = map_option snd (smc_send_message P c x s)"
| "apply_op P (Mark_txdone c r) s = Some (smc_mark_txdone c r s)"
| "apply_op P (Fetch_response c x) s = smc_fetch_response P c x s"
| "apply_op P (Poll_done c x) s = map_option snd (smc_poll_done P c x s)"

fun run_ops ::
  "('r::len word, 'w) platform \<Rightarrow> vtable_op list \<Rightarrow> ('r word, 'w) state \<Rightarrow>
     ('r word, 'w) state option" where
  "run_ops P [] s = Some s"
| "run_ops P (x # xs) s = (case apply_op P x s of None \<Rightarrow> None | Some s' \<Rightarrow> run_ops P xs s')"

section \<open>Properties\<close>

lemma strcmp_eq_0_iff: "strcmp a b = 0 \<longleftrightarrow> a = b"
  by (induction a b rule: strcmp.induct) auto

lemma conduit_method_chosen:
  "invoke_scmi_smc_fn s \<noteq> None \<Longrightarrow> scmi_smc_conduit_method P np s = (0, s)"
  by (simp add: scmi_smc_conduit_method_def)

lemma conduit_method_unset_eq:
  assumes "invoke_scmi_smc_fn s = None"
      and "of_property_read_string P np ''method'' = (rc, m)"
  shows "scmi_smc_conduit_method P np s =
     (let s1 = emit (Of_property_read_string np ''method'') s in
      if rc \<noteq> 0 then (- ENXIO, s1)
      else if m = ''hvc'' then (0, s1\<lparr>invoke_scmi_smc_fn := Some Invoke_scmi_fn_hvc\<rparr>)
      else if m = ''smc'' then (0, s1\<lparr>invoke_scmi_smc_fn := Some Invoke_scmi_fn_smc\<rparr>)
      else (- EINVAL, emit (Pr_warn (invalid_method_msg m)) s1))"
  using assms
  by (simp add: scmi_smc_conduit_method_def strcmp_eq_0_iff Let_def eq_commute[of _ m])

lemma conduit_method_ok_chosen:
  assumes "scmi_smc_conduit_method P np s = (0, s1)"
  shows "invoke_scmi_smc_fn s1 \<noteq> None"
proof (cases "invoke_scmi_smc_fn s")
  case None
  obtain rc m where rd: "of_property_read_string P np ''method'' = (rc, m)"
    by (cases "of_property_read_string P np ''method''")
  from assms show ?thesis
    unfolding conduit_method_unset_eq [OF None rd]
    by (auto simp: Let_def emit_def ENXIO_def EINVAL_def split: if_splits)
next
  case (Some f)
  with assms show ?thesis by (simp add: conduit_method_chosen)
qed

lemma conduit_method_frame:
  assumes "scmi_smc_conduit_method P np s = (r, s')"
  shows "smc_objs s' = smc_objs s \<and> chans s' = chans s \<and> world s' = world s \<and>
         (\<exists>evs. trace s' = trace s @ evs \<and> (\<forall>e\<in>set evs. \<not> is_read_u32 e))"
proof (cases "invoke_scmi_smc_fn s")
  case None
  obtain rc m where rd: "of_property_read_string P np ''method'' = (rc, m)"
    by (cases "of_property_read_string P np ''method''")
  from assms show ?thesis
    unfolding conduit_method_unset_eq [OF None rd]
    by (auto simp: Let_def emit_def split: if_splits)
next
  case (Some f)
  with assms show ?thesis by (simp add: conduit_method_chosen)
qed

lemma send_message_run:
  fixes P :: "('r::len word, 'w) platform"
  assumes "scmi_info_of s cinfo_p = Some (q, obj)"
      and "invoke_scmi_smc_fn s = Some f"
  shows "smc_send_message P cinfo_p xfer s =
     (let w1 = shmem_tx_prepare P (shmem obj) xfer (world s);
          args = [ucast (func_id obj), scast (prot_id obj), 0, 0, 0, 0, 0, 0];
          res = smccc_primitive f P args w1;
          r = (ucast (a0 (fst res)) :: c_int);
          hdr = shmem_read_header P (shmem obj) (snd res)
      in Some (if 0 <s r then 0 else r,
           s\<lparr>world := scmi_rx_callback P (cinfo obj) hdr (snd res),
             trace := trace s @ [Shmem_tx_prepare (shmem obj) xfer, conduit_event f args,
                        Shmem_read_header (shmem obj), Scmi_rx_callback (cinfo obj) hdr]\<rparr>))"
  using assms
  by (cases f)
     (simp_all add: smc_send_message_def invoke_scmi_fn_hvc_def invoke_scmi_fn_smc_def
        smccc_primitive_def conduit_event_def emit_def Let_def split: prod.splits)

lemma sint_ucast_int:
  fixes r :: "'r::len word"
  assumes "32 \<le> LENGTH('r)" "- (2 ^ 31) \<le> sint r" "sint r < 2 ^ 31"
  shows "sint (ucast r :: 32 word) = sint r"
proof -
  have "signed_take_bit 31 (sint r) = signed_take_bit 31 (uint r)"
    using assms(1) by (simp add: sint_uint min_def)
  moreover have "signed_take_bit 31 (sint r) = sint r"
    using assms(2,3) by (simp add: signed_take_bit_int_eq_self)
  ultimately show ?thesis
    by (simp add: signed_ucast_eq)
qed

lemma normalized_not_positive: "sint (if 0 <s (r :: c_int) then 0 else r) \<le> 0"
  by (simp add: word_sless_alt)

text \<open>
  C1 (amended). On a set-up channel with the conduit chosen, \<open>smc_send_message\<close> returns. Its
  status is the conduit's return value \<open>r\<close> cut to a 32-bit \<open>int\<close>: 0 when that \<open>int\<close> is
  strictly positive, and that \<open>int\<close> unchanged otherwise; so the status is never positive.
  When \<open>r\<close>, read as a signed number of register width, fits an \<open>int\<close>, a strictly positive
  \<open>r\<close> gives 0 and any other \<open>r\<close> is passed on with its signed value.
\<close>

theorem send_message_status:
  fixes P :: "('r::len word, 'w) platform"
  assumes "scmi_info_of s cinfo_p = Some (q, obj)"
      and "invoke_scmi_smc_fn s = Some f"
      and "r = a0 (fst (smccc_primitive f P
                 [ucast (func_id obj), scast (prot_id obj), 0, 0, 0, 0, 0, 0]
                 (shmem_tx_prepare P (shmem obj) xfer (world s))))"
  shows "\<exists>ret s'. smc_send_message P cinfo_p xfer s = Some (ret, s') \<and>
           ret = (if 0 <s (ucast r :: c_int) then 0 else ucast r) \<and>
           sint ret \<le> 0 \<and>
           (32 \<le> LENGTH('r) \<and> - (2 ^ 31) \<le> sint r \<and> sint r < 2 ^ 31 \<longrightarrow>
              (0 < sint r \<longrightarrow> ret = 0) \<and> (sint r \<le> 0 \<longrightarrow> sint ret = sint r))"
proof -
  let ?c = "ucast r :: c_int"
  let ?ret = "if 0 <s ?c then 0 else ?c"
  have run: "\<exists>s'. smc_send_message P cinfo_p xfer s = Some (?ret, s')"
    using assms by (simp add: send_message_run Let_def)
  have fits: "(0 < sint r \<longrightarrow> ?ret = 0) \<and> (sint r \<le> 0 \<longrightarrow> sint ?ret = sint r)"
    if "32 \<le> LENGTH('r)" "- (2 ^ 31) \<le> sint r" "sint r < 2 ^ 31"
    using sint_ucast_int [OF that] by (simp add: word_sless_alt)
  from run normalized_not_positive [of ?c] fits show ?thesis
    by blast
qed

lemma scenario_ready_info:
  "scmi_info_of scenario_ready 7 =
     Some (0, \<lparr>cinfo = Some 7, shmem = Some 4096, func_id = 0xC20000FE, prot_id = 0x14\<rparr>)"
  by (simp add: scmi_info_of_def scenario_ready_def)

lemma scenario_ready_fn: "invoke_scmi_smc_fn scenario_ready = Some Invoke_scmi_fn_smc"
  by (simp add: scenario_ready_def)

text \<open>
  C1 as stated fails on a 64-bit register. The conduit value \<open>0x80000000\<close> is strictly
  positive, and the status is not 0 but INT\_MIN; the conduit value \<open>0xFFFFFFFF00000001\<close>
  is negative, and the status is 0.
\<close>

theorem send_message_status_counterexample:
  "0 <s (0x80000000 :: 64 word) \<and>
   a0 (fst (arm_smccc_smc (scenario_platform 0x80000000 (Some ''smc''))
              [0xC20000FE, 0x14, 0, 0, 0, 0, 0, 0] 0x00010014)) = 0x80000000 \<and>
   map_option fst (smc_send_message (scenario_platform 0x80000000 (Some ''smc'')) 7 1
                     scenario_ready) = Some 0x80000000 \<and>
   sint (0x80000000 :: c_int) = - 2147483648 \<and>
   (0xFFFFFFFF00000001 :: 64 word) <s 0 \<and>
   a0 (fst (arm_smccc_smc (scenario_platform 0xFFFFFFFF00000001 (Some ''smc''))
              [0xC20000FE, 0x14, 0, 0, 0, 0, 0, 0] 0x00010014)) = 0xFFFFFFFF00000001 \<and>
   map_option fst (smc_send_message (scenario_platform 0xFFFFFFFF00000001 (Some ''smc'')) 7 1
                     scenario_ready) = Some 0"
  unfolding send_message_run [OF scenario_ready_info scenario_ready_fn]
  by (simp add: scenario_platform_def smccc_primitive_def Let_def word_sless_alt)

theorem send_message_status_witness:
  "map_option fst (smc_send_message (scenario_platform 1 (Some ''smc'')) 7 1 scenario_ready)
     = Some 0 \<and>
   map_option fst (smc_send_message (scenario_platform (- 5) (Some ''smc'')) 7 1 scenario_ready)
     = Some (- 5)"
proof -
  have len: "32 \<le> LENGTH(64)" by simp
  have v1: "(1 :: 64 word) = a0 (fst (smccc_primitive Invoke_scmi_fn_smc
       (scenario_platform 1 (Some ''smc''))
       [ucast (func_id \<lparr>cinfo = Some 7, shmem = Some 4096, func_id = 0xC20000FE, prot_id = 0x14\<rparr>),
        scast (prot_id \<lparr>cinfo = Some 7, shmem = Some 4096, func_id = 0xC20000FE, prot_id = 0x14\<rparr>),
        0, 0, 0, 0, 0, 0]
       (shmem_tx_prepare (scenario_platform 1 (Some ''smc''))
          (shmem \<lparr>cinfo = Some 7, shmem = Some 4096, func_id = 0xC20000FE, prot_id = 0x14\<rparr>) 1
          (world scenario_ready))))"
    by (simp add: smccc_primitive_def scenario_platform_def)
  have v2: "(- 5 :: 64 word) = a0 (fst (smccc_primitive Invoke_scmi_fn_smc
       (scenario_platform (- 5) (Some ''smc''))
       [ucast (func_id \<lparr>cinfo = Some 7, shmem = Some 4096, func_id = 0xC20000FE, prot_id = 0x14\<rparr>),
        scast (prot_id \<lparr>cinfo = Some 7, shmem = Some 4096, func_id = 0xC20000FE, prot_id = 0x14\<rparr>),
        0, 0, 0, 0, 0, 0]
       (shmem_tx_prepare (scenario_platform (- 5) (Some ''smc''))
          (shmem \<lparr>cinfo = Some 7, shmem = Some 4096, func_id = 0xC20000FE, prot_id = 0x14\<rparr>) 1
          (world scenario_ready))))"
    by (simp add: smccc_primitive_def scenario_platform_def)
  from send_message_status [OF scenario_ready_info scenario_ready_fn v1]
       send_message_status [OF scenario_ready_info scenario_ready_fn v2]
  show ?thesis by (auto simp: word_sless_alt)
qed

text \<open>
  C2. On a set-up channel with the conduit chosen, \<open>smc_send_message\<close> returns, whatever the
  conduit returns, and among the calls it made there is exactly one of \<open>scmi_rx_callback\<close>:
  the last call, after the conduit call and the read of the header, with the channel
  object's \<open>cinfo\<close> and the header that \<open>shmem_read_header\<close> reads in the world the conduit
  call left. The callback is run, and run once: the world after the send is the callback's
  effect, with those two arguments, on the world the conduit call left, and nothing else
  of the state but the trace differs.
\<close>

theorem rx_callback_once:
  fixes P :: "('r::len word, 'w) platform"
  assumes "scmi_info_of s cinfo_p = Some (q, obj)"
      and "invoke_scmi_smc_fn s = Some f"
      and "res = smccc_primitive f P
                   [ucast (func_id obj), scast (prot_id obj), 0, 0, 0, 0, 0, 0]
                   (shmem_tx_prepare P (shmem obj) xfer (world s))"
  shows "\<exists>ret s'. smc_send_message P cinfo_p xfer s = Some (ret, s') \<and>
           filter is_rx_callback (new_events s s') =
             [Scmi_rx_callback (cinfo obj) (shmem_read_header P (shmem obj) (snd res))] \<and>
           new_events s s' =
             [Shmem_tx_prepare (shmem obj) xfer,
              conduit_event f [ucast (func_id obj), scast (prot_id obj), 0, 0, 0, 0, 0, 0],
              Shmem_read_header (shmem obj),
              Scmi_rx_callback (cinfo obj) (shmem_read_header P (shmem obj) (snd res))] \<and>
           world s' =
             scmi_rx_callback P (cinfo obj) (shmem_read_header P (shmem obj) (snd res))
               (snd res) \<and>
           s' = s\<lparr>world := world s', trace := trace s'\<rparr>"
  using assms
  by (simp add: send_message_run Let_def new_events_def conduit_event_def
        split: scmi_smc_fn.split)

theorem rx_callback_once_witness:
  "map_option (\<lambda>(ret, s'). (ret, filter is_rx_callback (new_events scenario_ready s'),
                 world s'))
     (smc_send_message (scenario_platform (- 5) (Some ''smc'')) 7 1 scenario_ready) =
     Some (- 5, [Scmi_rx_callback (Some 7) 0x00010015],
           scmi_rx_callback (scenario_platform (- 5) (Some ''smc'')) (Some 7) 0x00010015
             0x00010015)"
  using rx_callback_once [OF scenario_ready_info scenario_ready_fn refl,
          of "scenario_platform (- 5) (Some ''smc'')" 1]
  by (auto simp: send_message_run [OF scenario_ready_info scenario_ready_fn]
        scenario_platform_def smccc_primitive_def Let_def word_sless_alt)

lemma call_scmi_smc_fn_a0:
  "fst (call_scmi_smc_fn f P x0 x1 x2 x3 x4 x5 x6 x7 s) =
     a0 (fst (smccc_primitive f P [x0, x1, x2, x3, x4, x5, x6, x7] (world s)))"
  by (cases f)
     (simp_all add: invoke_scmi_fn_hvc_def invoke_scmi_fn_smc_def smccc_primitive_def Let_def
        split: prod.splits)

text \<open>
  C6. On a set-up channel, \<open>smc_send_message\<close> calls the conduit exactly once, with the eight
  arguments \<open>func_id\<close>, \<open>prot_id\<close>, 0, 0, 0, 0, 0, 0 (on a register of at least 32 bits the
  first has the unsigned value of the stored \<open>func_id\<close> and the second the signed value of
  the stored \<open>prot_id\<close>); the status is computed from \<open>a0\<close> of the result alone, which is
  all that the two invoke functions return.
\<close>

theorem conduit_call_abi:
  fixes P :: "('r::len word, 'w) platform"
  assumes "scmi_info_of s cinfo_p = Some (q, obj)"
      and "invoke_scmi_smc_fn s = Some f"
      and "args = [ucast (func_id obj), scast (prot_id obj), 0, 0, 0, 0, 0, (0 :: 'r word)]"
  shows "\<exists>ret s'. smc_send_message P cinfo_p xfer s = Some (ret, s') \<and>
           filter is_conduit_call (new_events s s') = [conduit_event f args] \<and>
           length args = 8 \<and>
           ret = (let r = ucast (a0 (fst (smccc_primitive f P args
                                 (shmem_tx_prepare P (shmem obj) xfer (world s)))))
                  in if 0 <s r then 0 else r) \<and>
           (\<forall>x0 x1 x2 x3 x4 x5 x6 x7 s0.
              fst (call_scmi_smc_fn f P x0 x1 x2 x3 x4 x5 x6 x7 s0) =
                a0 (fst (smccc_primitive f P [x0, x1, x2, x3, x4, x5, x6, x7] (world s0)))) \<and>
           (32 \<le> LENGTH('r) \<longrightarrow>
              uint (args ! 0) = uint (func_id obj) \<and> sint (args ! 1) = sint (prot_id obj))"
proof -
  have up: "uint (ucast (func_id obj) :: 'r word) = uint (func_id obj) \<and>
            sint (scast (prot_id obj) :: 'r word) = sint (prot_id obj)"
    if "32 \<le> LENGTH('r)"
    using that by (simp add: uint_up_ucast sint_up_scast is_up)
  from assms up show ?thesis
    by (simp add: send_message_run Let_def new_events_def conduit_event_def
          call_scmi_smc_fn_a0 split: scmi_smc_fn.split)
qed

theorem conduit_call_abi_witness:
  "map_option (\<lambda>(ret, s'). filter is_conduit_call (new_events scenario_ready s'))
     (smc_send_message (scenario_platform 0 (Some ''smc'')) 7 1 scenario_ready) =
     Some [Arm_smccc_smc [0xC20000FE, 0x14, 0, 0, 0, 0, 0, 0]] \<and>
   uint (0xC20000FE :: 64 word) = uint (0xC20000FE :: u32) \<and>
   sint (0x14 :: 64 word) = sint (0x14 :: c_int)"
  using conduit_call_abi [OF scenario_ready_info scenario_ready_fn refl,
          of "scenario_platform 0 (Some ''smc'')" 1]
  by (auto simp: conduit_event_def)

text \<open>
  C7. On a set-up channel, \<open>smc_chan_free\<close> returns 0, sets the descriptor's
  \<open>transport_info\<close> to NULL and the channel object's \<open>cinfo\<close> to NULL, changes nothing else
  in the driver state, and calls \<open>scmi_free_channel\<close> exactly once, with the descriptor,
  the opaque data and the id it was given.
\<close>

theorem chan_free_detaches:
  assumes "chans s p = Some ci"
      and "transport_info ci = Some q"
      and "q < length (smc_objs s)"
  shows "\<exists>s'. smc_chan_free P chan_id p data s = Some (0, s') \<and>
           chans s' = (chans s)(p \<mapsto> ci\<lparr>transport_info := None\<rparr>) \<and>
           smc_objs s' = (smc_objs s)[q := (smc_objs s ! q)\<lparr>cinfo := None\<rparr>] \<and>
           cinfo (smc_objs s' ! q) = None \<and>
           new_events s s' = [Scmi_free_channel p data chan_id] \<and>
           world s' = scmi_free_channel P p data chan_id (world s) \<and>
           invoke_scmi_smc_fn s' = invoke_scmi_smc_fn s"
  using assms
  by (simp add: smc_chan_free_def Let_def upd_smc_def emit_def new_events_def)

theorem chan_free_detaches_witness:
  "map_option (\<lambda>(ret, s'). (ret, map_option transport_info (chans s' 7),
                 map cinfo (smc_objs s'), new_events scenario_ready s'))
     (smc_chan_free (scenario_platform 0 (Some ''smc'')) 3 7 99 scenario_ready) =
     Some (0, Some None, [None], [Scmi_free_channel 7 99 3])"
  using chan_free_detaches [of scenario_ready 7 "\<lparr>dev = 10, transport_info = Some 0\<rparr>" 0
          "scenario_platform 0 (Some ''smc'')" 3 99]
  by (auto simp: scenario_ready_def)

text \<open>
  C9. \<open>smc_chan_available\<close> is true for every device and index; it has no other input.
\<close>

theorem chan_available_always: "smc_chan_available dev_p idx = True"
  by (simp add: smc_chan_available_def)

text \<open>
  C4. For a channel descriptor that exists, \<open>smc_chan_setup\<close> with \<open>tx\<close> false returns
  \<open>-ENODEV\<close> (-19) and leaves the whole state as it was: no object is allocated, no
  collaborator is called (the trace is the same), and the world and the conduit pointer are
  untouched.
\<close>

theorem chan_setup_rx_rejected:
  assumes "chans s cinfo_p = Some ci"
  shows "smc_chan_setup P cinfo_p dev_p prot False s = Some (- ENODEV, s) \<and>
         sint (- ENODEV) = - 19"
  using assms by (simp add: smc_chan_setup_def ENODEV_def)

theorem chan_setup_rx_rejected_witness:
  "smc_chan_setup (scenario_platform 0 (Some ''smc'')) 7 20 0x14 False scenario_initial =
     Some (- 19, scenario_initial)"
  using chan_setup_rx_rejected [where s = scenario_initial and cinfo_p = 7
          and ci = "\<lparr>dev = 10, transport_info = None\<rparr>"
          and P = "scenario_platform 0 (Some ''smc'')" and dev_p = 20 and prot = "0x14"]
  by (simp add: scenario_initial_def ENODEV_def)

text \<open>
  C3. With the pointer set, \<open>scmi_smc_conduit_method\<close> returns 0 and leaves the state,
  trace included, as it was, whatever the node and the platform: the method string is not
  read. So a call that returned 0 makes every later call return 0 without a change; and
  from the unset pointer, a node whose method reads \<open>smc\<close> selects the smc variant, which
  any second call (one with method \<open>hvc\<close> among them) leaves in place.
\<close>

theorem conduit_write_once:
  "(invoke_scmi_smc_fn s \<noteq> None \<longrightarrow> scmi_smc_conduit_method P np s = (0, s)) \<and>
   (scmi_smc_conduit_method P np s = (0, s1) \<longrightarrow>
      scmi_smc_conduit_method P2 np2 s1 = (0, s1)) \<and>
   (invoke_scmi_smc_fn s = None \<and> of_property_read_string P np ''method'' = (0, ''smc'') \<longrightarrow>
      (\<exists>s1. scmi_smc_conduit_method P np s = (0, s1) \<and>
            invoke_scmi_smc_fn s1 = Some Invoke_scmi_fn_smc \<and>
            scmi_smc_conduit_method P2 np2 s1 = (0, s1)))"
proof (intro conjI impI)
  assume "invoke_scmi_smc_fn s \<noteq> None"
  then show "scmi_smc_conduit_method P np s = (0, s)"
    by (rule conduit_method_chosen)
next
  assume "scmi_smc_conduit_method P np s = (0, s1)"
  then have "invoke_scmi_smc_fn s1 \<noteq> None"
    by (rule conduit_method_ok_chosen)
  then show "scmi_smc_conduit_method P2 np2 s1 = (0, s1)"
    by (rule conduit_method_chosen)
next
  assume a: "invoke_scmi_smc_fn s = None \<and>
             of_property_read_string P np ''method'' = (0, ''smc'')"
  then have "scmi_smc_conduit_method P np s =
      (0, (emit (Of_property_read_string np ''method'') s)
             \<lparr>invoke_scmi_smc_fn := Some Invoke_scmi_fn_smc\<rparr>)"
    by (simp add: conduit_method_unset_eq [of s P np 0 "''smc''"] Let_def)
  then show "\<exists>s1. scmi_smc_conduit_method P np s = (0, s1) \<and>
            invoke_scmi_smc_fn s1 = Some Invoke_scmi_fn_smc \<and>
            scmi_smc_conduit_method P2 np2 s1 = (0, s1)"
    by (simp add: conduit_method_chosen)
qed

lemma scenario_initial_unset: "invoke_scmi_smc_fn scenario_initial = None"
  by (simp add: scenario_initial_def)

lemma scenario_method_absent:
  "of_property_read_string (scenario_platform v None) (Some 4) ''method'' = (- EINVAL, [])"
  by (simp add: scenario_platform_def)

lemma scenario_method_present:
  "of_property_read_string (scenario_platform v (Some m)) (Some 4) ''method'' = (0, m)"
  by (simp add: scenario_platform_def)

theorem conduit_write_once_witness:
  "(case scmi_smc_conduit_method (scenario_platform 0 (Some ''smc'')) (Some 4)
           scenario_initial of
      (r1, s1) \<Rightarrow>
        (case scmi_smc_conduit_method (scenario_platform 0 (Some ''hvc'')) (Some 4) s1 of
           (r2, s2) \<Rightarrow> (r1, r2, invoke_scmi_smc_fn s1, invoke_scmi_smc_fn s2))) =
     (0, 0, Some Invoke_scmi_fn_smc, Some Invoke_scmi_fn_smc)"
proof -
  from conduit_write_once [where s = scenario_initial
          and P = "scenario_platform 0 (Some ''smc'')" and np = "Some 4"
          and ?P2.0 = "scenario_platform 0 (Some ''hvc'')" and ?np2.0 = "Some 4"]
       scenario_initial_unset scenario_method_present [of 0 "''smc''"]
  obtain s1 where
    "scmi_smc_conduit_method (scenario_platform 0 (Some ''smc'')) (Some 4) scenario_initial =
       (0, s1)"
    "invoke_scmi_smc_fn s1 = Some Invoke_scmi_fn_smc"
    "scmi_smc_conduit_method (scenario_platform 0 (Some ''hvc'')) (Some 4) s1 = (0, s1)"
    by blast
  then show ?thesis by simp
qed

text \<open>
  C5. With the pointer unset: when \<open>of_property_read_string\<close> fails (the property is
  absent) the result is \<open>-ENXIO\<close>; the string \<open>hvc\<close> selects the hvc variant and \<open>smc\<close> the
  smc variant, with result 0; any other string gives \<open>-EINVAL\<close> after one \<open>pr_warn\<close>. On
  both error paths the pointer stays unset and nothing but the trace differs from the
  state before.
\<close>

theorem conduit_method_resolve:
  assumes "invoke_scmi_smc_fn s = None"
      and "of_property_read_string P np ''method'' = (rc, m)"
      and "scmi_smc_conduit_method P np s = (ret, s')"
  shows "(rc \<noteq> 0 \<longrightarrow>
            ret = - ENXIO \<and> invoke_scmi_smc_fn s' = None \<and> s'\<lparr>trace := trace s\<rparr> = s) \<and>
         (rc = 0 \<and> m = ''hvc'' \<longrightarrow>
            ret = 0 \<and> invoke_scmi_smc_fn s' = Some Invoke_scmi_fn_hvc) \<and>
         (rc = 0 \<and> m = ''smc'' \<longrightarrow>
            ret = 0 \<and> invoke_scmi_smc_fn s' = Some Invoke_scmi_fn_smc) \<and>
         (rc = 0 \<and> m \<noteq> ''hvc'' \<and> m \<noteq> ''smc'' \<longrightarrow>
            ret = - EINVAL \<and> invoke_scmi_smc_fn s' = None \<and> s'\<lparr>trace := trace s\<rparr> = s \<and>
            new_events s s' =
              [Of_property_read_string np ''method'', Pr_warn (invalid_method_msg m)]) \<and>
         sint (- ENXIO) = - 6 \<and> sint (- EINVAL) = - 22"
  using assms(1,3) unfolding conduit_method_unset_eq [OF assms(1,2)]
  by (auto simp: Let_def emit_def new_events_def ENXIO_def EINVAL_def)

theorem conduit_method_resolve_witness:
  "fst (scmi_smc_conduit_method (scenario_platform 0 None) (Some 4) scenario_initial) = - 6 \<and>
   invoke_scmi_smc_fn
     (snd (scmi_smc_conduit_method (scenario_platform 0 None) (Some 4) scenario_initial)) =
     None \<and>
   fst (scmi_smc_conduit_method (scenario_platform 0 (Some ''hvc'')) (Some 4)
          scenario_initial) = 0 \<and>
   invoke_scmi_smc_fn
     (snd (scmi_smc_conduit_method (scenario_platform 0 (Some ''hvc'')) (Some 4)
             scenario_initial)) = Some Invoke_scmi_fn_hvc \<and>
   fst (scmi_smc_conduit_method (scenario_platform 0 (Some ''smc'')) (Some 4)
          scenario_initial) = 0 \<and>
   invoke_scmi_smc_fn
     (snd (scmi_smc_conduit_method (scenario_platform 0 (Some ''smc'')) (Some 4)
             scenario_initial)) = Some Invoke_scmi_fn_smc \<and>
   fst (scmi_smc_conduit_method (scenario_platform 0 (Some ''trap'')) (Some 4)
          scenario_initial) = - 22 \<and>
   invoke_scmi_smc_fn
     (snd (scmi_smc_conduit_method (scenario_platform 0 (Some ''trap'')) (Some 4)
             scenario_initial)) = None"
proof -
  note unset = scenario_initial_unset
  from conduit_method_resolve [OF unset scenario_method_absent [of 0] surjective_pairing]
       conduit_method_resolve
         [OF unset scenario_method_present [of 0 "''hvc''"] surjective_pairing]
       conduit_method_resolve
         [OF unset scenario_method_present [of 0 "''smc''"] surjective_pairing]
       conduit_method_resolve
         [OF unset scenario_method_present [of 0 "''trap''"] surjective_pairing]
  show ?thesis
    by (simp add: EINVAL_def ENXIO_def)
qed

lemma conduit_method_effect:
  assumes "scmi_smc_conduit_method P np s = (r, s')"
  shows "smc_objs s' = smc_objs s \<and> chans s' = chans s \<and> world s' = world s \<and>
         (\<exists>evs. trace s' = trace s @ evs \<and> (\<forall>e\<in>set evs. \<not> is_read_u32 e)) \<and>
         (r = 0 \<longrightarrow> invoke_scmi_smc_fn s' \<noteq> None)"
  using assms conduit_method_frame [OF assms] conduit_method_ok_chosen [of P np s s']
  by blast

lemma chan_setup_ok:
  assumes "smc_chan_setup P cinfo_p dev_p prot tx s0 = Some (0, s)"
  shows "\<exists>ci m. tx \<and> chans s0 cinfo_p = Some ci \<and>
           smc_objs s = smc_objs s0 @
             [\<lparr>cinfo = Some cinfo_p, shmem = Some m,
               func_id = snd (of_property_read_u32 P (of_node P dev_p) ''smc-id''),
               prot_id = prot\<rparr>] \<and>
           chans s = (chans s0)(cinfo_p \<mapsto> ci\<lparr>transport_info := Some (length (smc_objs s0))\<rparr>) \<and>
           invoke_scmi_smc_fn s \<noteq> None"
  using assms unfolding smc_chan_setup_def
  by (auto simp: Let_def emit_def upd_smc_def zeroed_scmi_smc_def
        ENODEV_def ENOMEM_def EADDRNOTAVAIL_def word_sless_alt
      split: option.splits if_splits prod.splits
      dest!: conduit_method_effect)

lemma chan_setup_read_u32:
  assumes "smc_chan_setup P cinfo_p dev_p prot tx s = Some (ret, s')"
  shows "\<forall>e\<in>set (new_events s s').
           is_read_u32 e \<longrightarrow> e = Of_property_read_u32 (of_node P dev_p) ''smc-id''"
  using assms unfolding smc_chan_setup_def
  by (auto simp: Let_def emit_def upd_smc_def new_events_def
      split: option.splits if_splits prod.splits
      dest!: conduit_method_effect)

lemma scenario_setup:
  "smc_chan_setup (scenario_platform v (Some ''smc'')) 7 20 0x14 True scenario_initial =
     Some (0, scenario_ready\<lparr>trace :=
       [Devm_kzalloc 20, Of_parse_phandle (Some 1) ''shmem'' 0,
        Of_address_to_resource (Some 3) 0, Of_node_put (Some 3),
        Devm_ioremap 20 0x4000000 0x1000, Of_property_read_u32 (Some 2) ''smc-id'',
        Of_find_node_by_path ''/psci'', Of_property_read_string (Some 4) ''method'',
        Of_node_put (Some 4)]\<rparr>)"
  by (simp add: smc_chan_setup_def scenario_platform_def scenario_initial_def
        scenario_ready_def scmi_smc_conduit_method_def emit_def upd_smc_def
        zeroed_scmi_smc_def resource_size_def Let_def word_sless_alt)

text \<open>
  C10. Whatever \<open>smc_chan_setup\<close> returns, every \<open>of_property_read_u32\<close> it made reads
  \<open>smc-id\<close> from the node of the transport device \<open>dev\<close>, the second parameter; and after
  a return of 0 the \<open>func_id\<close> of the channel object is the value that read stored. This
  holds for every device tree, the ones where the \<open>shmem\<close> reference is found on the node
  of \<open>cinfo->dev\<close> among them.
\<close>

theorem smc_id_from_transport_device:
  assumes "smc_chan_setup P cinfo_p dev_p prot tx s = Some (ret, s')"
  shows "(\<forall>e\<in>set (new_events s s').
            is_read_u32 e \<longrightarrow> e = Of_property_read_u32 (of_node P dev_p) ''smc-id'') \<and>
         (ret = 0 \<longrightarrow>
            (\<exists>q obj. scmi_info_of s' cinfo_p = Some (q, obj) \<and>
                     func_id obj = snd (of_property_read_u32 P (of_node P dev_p) ''smc-id'')))"
proof (intro conjI impI)
  show "\<forall>e\<in>set (new_events s s').
          is_read_u32 e \<longrightarrow> e = Of_property_read_u32 (of_node P dev_p) ''smc-id''"
    using assms by (rule chan_setup_read_u32)
next
  assume "ret = 0"
  with assms have "smc_chan_setup P cinfo_p dev_p prot tx s = Some (0, s')"
    by simp
  from chan_setup_ok [OF this]
  show "\<exists>q obj. scmi_info_of s' cinfo_p = Some (q, obj) \<and>
          func_id obj = snd (of_property_read_u32 P (of_node P dev_p) ''smc-id'')"
    by (auto simp: scmi_info_of_def)
qed

theorem smc_id_from_transport_device_witness:
  "map_option (\<lambda>(ret, s'). (ret, filter is_read_u32 (new_events scenario_initial s'),
                 map func_id (smc_objs s')))
     (smc_chan_setup (scenario_platform 0 (Some ''smc'')) 7 20 0x14 True scenario_initial) =
     Some (0, [Of_property_read_u32 (Some 2) ''smc-id''], [0xC20000FE]) \<and>
   of_parse_phandle (scenario_platform 0 (Some ''smc''))
     (of_node (scenario_platform 0 (Some ''smc'')) 10) ''shmem'' 0 = Some 3 \<and>
   of_property_read_u32 (scenario_platform 0 (Some ''smc''))
     (of_node (scenario_platform 0 (Some ''smc'')) 10) ''smc-id'' = (0, 0xDEAD)"
proof -
  note smc_id_from_transport_device [OF scenario_setup [of 0]]
  then have "func_id (smc_objs scenario_ready ! 0) =
      snd (of_property_read_u32 (scenario_platform 0 (Some ''smc''))
             (of_node (scenario_platform 0 (Some ''smc'')) 20) ''smc-id'')"
    by (auto simp: scmi_info_of_def scenario_ready_def split: option.splits if_splits)
  then show ?thesis
    unfolding scenario_setup
    by (simp add: new_events_def scenario_initial_def scenario_ready_def
          scenario_platform_def)
qed

lemma scmi_info_of_cong:
  "smc_objs s' = smc_objs s \<Longrightarrow> chans s' = chans s \<Longrightarrow>
     scmi_info_of s' c = scmi_info_of s c"
  by (auto simp: scmi_info_of_def split: option.splits)

lemma call_scmi_smc_fn_frame:
  assumes "call_scmi_smc_fn f P x0 x1 x2 x3 x4 x5 x6 x7 s = (r, s')"
  shows "smc_objs s' = smc_objs s \<and> chans s' = chans s \<and>
         invoke_scmi_smc_fn s' = invoke_scmi_smc_fn s"
  using assms
  by (cases f)
     (auto simp: invoke_scmi_fn_hvc_def invoke_scmi_fn_smc_def emit_def Let_def
        split: prod.splits)

lemma apply_op_frame:
  assumes "apply_op P x s = Some s'"
  shows "smc_objs s' = smc_objs s \<and> chans s' = chans s \<and>
         invoke_scmi_smc_fn s' = invoke_scmi_smc_fn s"
proof (cases x)
  case (Send_message c xf)
  with assms show ?thesis
    by (auto simp: smc_send_message_def emit_def Let_def
          split: option.splits prod.splits dest!: call_scmi_smc_fn_frame)
next
  case (Mark_txdone c r)
  with assms show ?thesis by (auto simp: smc_mark_txdone_def)
next
  case (Fetch_response c xf)
  with assms show ?thesis
    by (auto simp: smc_fetch_response_def emit_def split: option.splits)
next
  case (Poll_done c xf)
  with assms show ?thesis
    by (auto simp: smc_poll_done_def emit_def split: option.splits)
qed

lemma run_ops_frame:
  "run_ops P xs s = Some s' \<Longrightarrow>
     smc_objs s' = smc_objs s \<and> chans s' = chans s \<and>
     invoke_scmi_smc_fn s' = invoke_scmi_smc_fn s"
proof (induction xs arbitrary: s)
  case Nil
  then show ?case by simp
next
  case (Cons x xs)
  then obtain s1 where 1: "apply_op P x s = Some s1" and 2: "run_ops P xs s1 = Some s'"
    by (auto split: option.splits)
  from apply_op_frame [OF 1] Cons.IH [OF 2] show ?case by simp
qed

lemma apply_op_total:
  assumes "scmi_info_of s (op_chan x) = Some (q, obj)"
      and "invoke_scmi_smc_fn s = Some f"
  shows "\<exists>s'. apply_op P x s = Some s'"
proof (cases x)
  case (Send_message c xf)
  with assms show ?thesis by (simp add: send_message_run Let_def)
next
  case (Mark_txdone c r)
  then show ?thesis by simp
next
  case (Fetch_response c xf)
  with assms show ?thesis by (simp add: smc_fetch_response_def)
next
  case (Poll_done c xf)
  with assms show ?thesis by (simp add: smc_poll_done_def)
qed

lemma run_ops_total:
  assumes "\<forall>x\<in>set xs. op_chan x = c"
      and "scmi_info_of s c = Some (q, obj)"
      and "invoke_scmi_smc_fn s = Some f"
  shows "\<exists>s'. run_ops P xs s = Some s'"
  using assms
proof (induction xs arbitrary: s)
  case Nil
  show ?case by simp
next
  case (Cons x xs)
  from Cons.prems(1) have here: "op_chan x = c" and rest: "\<forall>y\<in>set xs. op_chan y = c"
    by simp_all
  from here Cons.prems(2) have "scmi_info_of s (op_chan x) = Some (q, obj)"
    by simp
  from apply_op_total [OF this Cons.prems(3)]
  obtain s1 where 1: "apply_op P x s = Some s1"
    by blast
  note fr = apply_op_frame [OF 1]
  from fr have "scmi_info_of s1 c = scmi_info_of s c"
    by (intro scmi_info_of_cong) simp_all
  with Cons.prems(2) have info1: "scmi_info_of s1 c = Some (q, obj)"
    by simp
  from fr Cons.prems(3) have fn1: "invoke_scmi_smc_fn s1 = Some f"
    by simp
  from Cons.IH [OF rest info1 fn1] obtain s' where "run_ops P xs s1 = Some s'"
    by blast
  with 1 show ?case by simp
qed

text \<open>
  C8. After \<open>smc_chan_setup\<close> returned 0 the descriptor's handle points to a channel object
  with a mapped \<open>shmem\<close>, the \<open>func_id\<close> read from \<open>smc-id\<close>, the given \<open>prot_id\<close> and the
  back-reference \<open>cinfo\<close>. Every run of \<open>smc_send_message\<close>, \<open>smc_mark_txdone\<close>,
  \<open>smc_fetch_response\<close> and \<open>smc_poll_done\<close> calls from there, in any number and order,
  leaves all channel objects, all descriptors and the conduit pointer as they were; and
  every such run on the channel that was set up does return.
\<close>

theorem channel_attributes_immutable:
  fixes P :: "('r::len word, 'w) platform"
  assumes "smc_chan_setup P cinfo_p dev_p prot tx s0 = Some (0, s)"
  shows "(\<exists>q obj. scmi_info_of s cinfo_p = Some (q, obj) \<and>
            cinfo obj = Some cinfo_p \<and> shmem obj \<noteq> None \<and> prot_id obj = prot \<and>
            func_id obj = snd (of_property_read_u32 P (of_node P dev_p) ''smc-id'')) \<and>
         (\<forall>xs s'. run_ops P xs s = Some s' \<longrightarrow>
            scmi_info_of s' cinfo_p = scmi_info_of s cinfo_p \<and> smc_objs s' = smc_objs s \<and>
            chans s' = chans s \<and> invoke_scmi_smc_fn s' = invoke_scmi_smc_fn s) \<and>
         (\<forall>xs. (\<forall>x\<in>set xs. op_chan x = cinfo_p) \<longrightarrow> (\<exists>s'. run_ops P xs s = Some s'))"
proof -
  from chan_setup_ok [OF assms] obtain ci m f where
    objs: "smc_objs s = smc_objs s0 @
             [\<lparr>cinfo = Some cinfo_p, shmem = Some m,
               func_id = snd (of_property_read_u32 P (of_node P dev_p) ''smc-id''),
               prot_id = prot\<rparr>]" and
    ch: "chans s = (chans s0)(cinfo_p \<mapsto> ci\<lparr>transport_info := Some (length (smc_objs s0))\<rparr>)" and
    fn: "invoke_scmi_smc_fn s = Some f"
    by blast
  let ?q = "length (smc_objs s0)"
  let ?obj = "\<lparr>cinfo = Some cinfo_p, shmem = Some m,
               func_id = snd (of_property_read_u32 P (of_node P dev_p) ''smc-id''),
               prot_id = prot\<rparr>"
  have info: "scmi_info_of s cinfo_p = Some (?q, ?obj)"
    by (simp add: scmi_info_of_def objs ch)
  have attrs: "\<exists>q obj. scmi_info_of s cinfo_p = Some (q, obj) \<and>
            cinfo obj = Some cinfo_p \<and> shmem obj \<noteq> None \<and> prot_id obj = prot \<and>
            func_id obj = snd (of_property_read_u32 P (of_node P dev_p) ''smc-id'')"
    unfolding info by simp
  have keep: "\<forall>xs s'. run_ops P xs s = Some s' \<longrightarrow>
            scmi_info_of s' cinfo_p = scmi_info_of s cinfo_p \<and> smc_objs s' = smc_objs s \<and>
            chans s' = chans s \<and> invoke_scmi_smc_fn s' = invoke_scmi_smc_fn s"
  proof (intro allI impI)
    fix xs s' assume "run_ops P xs s = Some s'"
    note fr = run_ops_frame [OF this]
    from fr have "scmi_info_of s' cinfo_p = scmi_info_of s cinfo_p"
      by (intro scmi_info_of_cong) simp_all
    with fr show "scmi_info_of s' cinfo_p = scmi_info_of s cinfo_p \<and>
        smc_objs s' = smc_objs s \<and> chans s' = chans s \<and>
        invoke_scmi_smc_fn s' = invoke_scmi_smc_fn s"
      by simp
  qed
  have total: "\<forall>xs. (\<forall>x\<in>set xs. op_chan x = cinfo_p) \<longrightarrow> (\<exists>s'. run_ops P xs s = Some s')"
  proof (intro allI impI)
    fix xs assume "\<forall>x\<in>set xs. op_chan x = cinfo_p"
    then show "\<exists>s'. run_ops P xs s = Some s'"
      using info fn by (rule run_ops_total)
  qed
  from attrs keep total show ?thesis
    by (intro conjI)
qed

theorem channel_attributes_immutable_witness:
  "map_option (\<lambda>s'. (smc_objs s', chans s' 7, invoke_scmi_smc_fn s'))
     (run_ops (scenario_platform (- 5) (Some ''smc''))
        [Send_message 7 1, Poll_done 7 1, Fetch_response 7 1, Mark_txdone 7 (- 5),
         Send_message 7 2]
        (snd (the (smc_chan_setup (scenario_platform (- 5) (Some ''smc'')) 7 20 0x14 True
                     scenario_initial)))) =
     Some ([\<lparr>cinfo = Some 7, shmem = Some 4096, func_id = 0xC20000FE, prot_id = 0x14\<rparr>],
           Some \<lparr>dev = 10, transport_info = Some 0\<rparr>, Some Invoke_scmi_fn_smc)"
proof -
  let ?P = "scenario_platform (- 5) (Some ''smc'') :: (64 word, u32) platform"
  let ?xs = "[Send_message 7 1, Poll_done 7 1, Fetch_response 7 1, Mark_txdone 7 (- 5),
              Send_message 7 2]"
  obtain s where ran: "smc_chan_setup ?P 7 20 0x14 True scenario_initial = Some (0, s)"
    and s: "smc_objs s = smc_objs scenario_ready" "chans s = chans scenario_ready"
      "invoke_scmi_smc_fn s = invoke_scmi_smc_fn scenario_ready"
    using scenario_setup [of "- 5"] by simp
  note inst = channel_attributes_immutable [OF ran]
  from inst have keep: "\<forall>xs s'. run_ops ?P xs s = Some s' \<longrightarrow>
      scmi_info_of s' 7 = scmi_info_of s 7 \<and> smc_objs s' = smc_objs s \<and>
      chans s' = chans s \<and> invoke_scmi_smc_fn s' = invoke_scmi_smc_fn s"
    by (rule conjunct1 [OF conjunct2])
  from inst have total: "\<forall>xs. (\<forall>x\<in>set xs. op_chan x = 7) \<longrightarrow> (\<exists>s'. run_ops ?P xs s = Some s')"
    by (rule conjunct2 [OF conjunct2])
  have "\<forall>x\<in>set ?xs. op_chan x = 7"
    by simp
  with total obtain s' where run: "run_ops ?P ?xs s = Some s'"
    by blast
  with keep have "smc_objs s' = smc_objs s" "chans s' = chans s"
    "invoke_scmi_smc_fn s' = invoke_scmi_smc_fn s"
    by blast+
  with s run ran show ?thesis
    by (simp add: scenario_ready_def)
qed

end
